theory Spec2Isabelle
  imports Main "HOL-Library.Word" "HOL-Library.Sublist"
begin

section \<open>Constants of the deployment script\<close>

text \<open>
  The script \<^verbatim>\<open>src/cdk.ts\<close> compiles two constants in: the region both service clients
  are created for and the bucket the packaged function is uploaded to.
\<close>

definition REGION :: string where
  "REGION = ''eu-central-1''"

definition LAMBDA_BUCKET :: string where
  "LAMBDA_BUCKET = ''cdk-test-tfn-lambdas''"

section \<open>Utils: the identifier generator\<close>

text \<open>
  \<^verbatim>\<open>randomBytes(n)\<close> of Node's \<^verbatim>\<open>crypto\<close> module hands back a buffer of \<open>n\<close> bytes of
  the process-wide random source. The source is an input of the model: \<open>rnd i\<close> is
  the \<open>i\<close>-th byte it yields on the call.
\<close>

definition randomBytes :: "nat \<Rightarrow> (nat \<Rightarrow> 8 word) \<Rightarrow> 8 word list" where
  "randomBytes n rnd = map rnd [0..<n]"

text \<open>
  \<^verbatim>\<open>Buffer.toString('hex')\<close>: two digits per byte, the high nibble first, the digits
  beyond nine written as the lowercase letters \<^verbatim>\<open>a\<close> to \<^verbatim>\<open>f\<close> (character codes 97 to 102).
\<close>

definition hexDigit :: "nat \<Rightarrow> char" where
  "hexDigit d = (if d < 10 then char_of (48 + d) else char_of (87 + d))"

definition byteToHex :: "8 word \<Rightarrow> string" where
  "byteToHex b = [hexDigit (unat b div 16), hexDigit (unat b mod 16)]"

definition toHex :: "8 word list \<Rightarrow> string" where
  "toHex bs = concat (map byteToHex bs)"

text \<open>
  \<^verbatim>\<open>function generateUUID() { return randomBytes(4).toString('hex'); }\<close>
\<close>

definition generateUUID :: "(nat \<Rightarrow> 8 word) \<Rightarrow> string" where
  "generateUUID rnd = toHex (randomBytes 4 rnd)"

section \<open>The naming grammar of the orchestration service\<close>

text \<open>
  The comment in \<^verbatim>\<open>main\<close> quotes the pattern a stack name has to match,
  \<^verbatim>\<open>[a-zA-Z][-a-zA-Z0-9]*\<close>: a letter, then letters, digits and hyphens. The matcher
  below decides the anchored pattern on a whole string.
\<close>

definition isLetter :: "char \<Rightarrow> bool" where
  "isLetter c = (let n = (of_char c :: nat) in (65 \<le> n \<and> n \<le> 90) \<or> (97 \<le> n \<and> n \<le> 122))"

definition isDigit :: "char \<Rightarrow> bool" where
  "isDigit c = (let n = (of_char c :: nat) in 48 \<le> n \<and> n \<le> 57)"

definition isNameChar :: "char \<Rightarrow> bool" where
  "isNameChar c = (c = CHR ''-'' \<or> isLetter c \<or> isDigit c)"

definition matchesNameGrammar :: "string \<Rightarrow> bool" where
  "matchesNameGrammar s = (case s of [] \<Rightarrow> False | c # cs \<Rightarrow> isLetter c \<and> list_all isNameChar cs)"

text \<open>The class \<^verbatim>\<open>[0-9a-f]\<close> of lowercase hexadecimal digits.\<close>

definition isLowerHex :: "char \<Rightarrow> bool" where
  "isLowerHex c = (let n = (of_char c :: nat) in (48 \<le> n \<and> n \<le> 57) \<or> (97 \<le> n \<and> n \<le> 102))"

section \<open>Numbers as text\<close>

text \<open>
  \<^verbatim>\<open>`tfn-${+new Date()}`\<close> writes a number of milliseconds into a string. The number is
  an integer well below \<open>10\<^sup>2\<^sup>1\<close> in size, which JavaScript prints in plain decimal
  notation, with a leading minus sign when it is negative.
\<close>

definition digitChar :: "nat \<Rightarrow> char" where
  "digitChar d = char_of (48 + d)"

fun showNat :: "nat \<Rightarrow> string" where
  "showNat n = (if n < 10 then [digitChar n] else showNat (n div 10) @ [digitChar (n mod 10)])"

declare showNat.simps [simp del]

definition showInt :: "int \<Rightarrow> string" where
  "showInt i = (if i < 0 then CHR ''-'' # showNat (nat (- i)) else showNat (nat i))"

section \<open>Stack definition\<close>

text \<open>
  The stack description is what the constructor of \<^verbatim>\<open>SingleDeploymentStack\<close> declares to
  the infrastructure framework: one record per construct, holding the construct id and
  the properties the script passes. A construct handed to another one (the bucket to the
  code, the role to the function, the function to the integration) is held by value where
  it is never changed afterwards and by its construct id where it is.
\<close>

record single_deployment_props =
  deploymentName :: string
  lambdaBucketName :: string
  functionName :: string

text \<open>
  \<^verbatim>\<open>Bucket.fromBucketArn(scope, id, arn)\<close> imports a bucket by its ARN. The framework
  keeps the ARN and the bucket's name, which it reads off the ARN: the ARN is split at
  its colons (\<^verbatim>\<open>arn.split(':')\<close>), the sixth component is the resource, and of a resource
  with a slash in it only the part before the slash counts (for a resource that starts
  with a slash, the part between the first two slashes). An ARN that does not start with
  \<^verbatim>\<open>arn:\<close> or lacks its partition, service or resource has no such name: \<open>None\<close>. It
  is this name that a function's code refers to its bucket by.
\<close>

fun jsSplit :: "char \<Rightarrow> string \<Rightarrow> string list" where
  "jsSplit sep [] = [[]]"
| "jsSplit sep (c # cs) =
     (if c = sep then [] # jsSplit sep cs
      else (case jsSplit sep cs of [] \<Rightarrow> [[c]] | part # parts \<Rightarrow> (c # part) # parts))"

definition nonEmpty :: "string \<Rightarrow> string option" where
  "nonEmpty s = (if s = [] then None else Some s)"

definition arnResource :: "string \<Rightarrow> string option" where
  "arnResource arn =
     (if take 4 arn = ''arn:'' then
        (case jsSplit CHR '':'' arn of
           scheme # partitionPart # servicePart # regionPart # accountPart # resourcePart # rest \<Rightarrow>
             (if partitionPart = [] then None
              else if servicePart = [] then None
              else if resourcePart = [] then None
              else if hd resourcePart = CHR ''/'' then
                (if CHR ''/'' \<in> set (tl resourcePart)
                 then nonEmpty (takeWhile (\<lambda>c. c \<noteq> CHR ''/'') (tl resourcePart))
                 else Some resourcePart)
              else nonEmpty (takeWhile (\<lambda>c. c \<noteq> CHR ''/'') resourcePart))
         | _ \<Rightarrow> None)
      else None)"

record bucket =
  bucketId :: string
  bucketArn :: string
  bucketName :: "string option"

record s3_code =
  codeBucket :: bucket
  codeKey :: string

record policy_statement =
  actions :: "string list"
  resources :: "string list"

record role =
  roleId :: string
  assumedBy :: string
  description :: string
  policy :: "policy_statement list"

datatype runtime = NODEJS_12_X | NODEJS_14_X | NODEJS_16_X

record lambda_function =
  fnId :: string
  fnRuntime :: runtime
  fnHandler :: string
  fnCode :: s3_code
  fnRole :: string

datatype retention_days = ONE_DAY | THREE_DAYS | FIVE_DAYS | ONE_WEEK | INFINITE

datatype removal_policy = DESTROY | RETAIN | SNAPSHOT

record log_group =
  logGroupId :: string
  logGroupName :: string
  retention :: retention_days
  removalPolicy :: removal_policy

datatype payload_format_version = VERSION_1_0 | VERSION_2_0

datatype http_method = ANY | DELETE | GET | HEAD | OPTIONS | PATCH | POST | PUT

record http_lambda_integration =
  integrationId :: string
  integrationHandler :: string
  payloadFormatVersion :: payload_format_version

record http_route =
  routePath :: string
  routeMethods :: "http_method list"
  routeIntegration :: http_lambda_integration

record http_api =
  apiId :: string
  routes :: "http_route list"

record stack =
  lambdaBucket :: bucket
  lambdaRole :: role
  lambdaFn :: lambda_function
  logGroup :: log_group
  httpApi :: http_api

text \<open>\<^verbatim>\<open>role.addToPolicy(statement)\<close> and \<^verbatim>\<open>httpApi.addRoutes(options)\<close> extend a construct.\<close>

definition addToPolicy :: "role \<Rightarrow> policy_statement \<Rightarrow> role" where
  "addToPolicy r st = r\<lparr>policy := policy r @ [st]\<rparr>"

definition addRoutes :: "http_api \<Rightarrow> http_route \<Rightarrow> http_api" where
  "addRoutes api rt = api\<lparr>routes := routes api @ [rt]\<rparr>"

text \<open>
  The constructor of \<^verbatim>\<open>SingleDeploymentStack\<close> (lines 56 to 120). The log group's name
  interpolates \<^verbatim>\<open>lambdaFn.functionName\<close>, an attribute the framework answers for the
  function construct; the script gives the function no name of its own. What the
  framework answers is the parameter \<open>functionNameOf\<close>. The constructor declares the
  constructs in the order below; the role and the gateway are extended after they are
  declared.

  The definition describes the stack the constructor declares when the framework accepts
  every declaration. The framework throws on some properties instead: a bucket name it
  finds invalid once parsed from the ARN, an empty deployment name, a deployment name
  that repeats a construct id of the stack. For such properties there is no stack, and
  what the definition returns for them describes nothing. The properties \<^verbatim>\<open>main\<close> passes
  are never of that kind.
\<close>

definition SingleDeploymentStack :: "(lambda_function \<Rightarrow> string) \<Rightarrow> single_deployment_props \<Rightarrow> stack" where
  "SingleDeploymentStack functionNameOf props =
    (let lambdaBucket0 = \<lparr>bucketId = ''lambda-storage'',
                           bucketArn = ''arn:aws:s3:::'' @ lambdaBucketName props,
                           bucketName = arnResource (''arn:aws:s3:::'' @ lambdaBucketName props)\<rparr>;
         internalFunctionName = ''helloWorld'';
         functionCode = \<lparr>codeBucket = lambdaBucket0, codeKey = functionName props @ ''.zip''\<rparr>;
         lambdaRole0 = \<lparr>roleId = ''Role'', assumedBy = ''lambda.amazonaws.com'',
                         description = ''Example role'', policy = []\<rparr>;
         lambdaFn0 = \<lparr>fnId = internalFunctionName, fnRuntime = NODEJS_14_X,
                       fnHandler = ''index.handler'', fnCode = functionCode,
                       fnRole = roleId lambdaRole0\<rparr>;
         logGroup0 = \<lparr>logGroupId = ''logGroup'' @ internalFunctionName,
                       logGroupName = ''/aws/lambda/'' @ functionNameOf lambdaFn0,
                       retention = FIVE_DAYS, removalPolicy = DESTROY\<rparr>;
         lambdaRole1 = addToPolicy lambdaRole0
                         \<lparr>actions = [''logs:PutLogEvents'', ''logs:CreateLogStream''],
                          resources = [''arn:aws:logs:*:*:log-group:/aws/lambda/*'']\<rparr>;
         httpApi0 = \<lparr>apiId = deploymentName props, routes = []\<rparr>;
         lambdaIntegration = \<lparr>integrationId = ''lambda'', integrationHandler = fnId lambdaFn0,
                               payloadFormatVersion = VERSION_2_0\<rparr>;
         httpApi1 = addRoutes httpApi0
                      \<lparr>routePath = ''/{proxy+}'', routeMethods = [ANY],
                       routeIntegration = lambdaIntegration\<rparr>
     in \<lparr>lambdaBucket = lambdaBucket0, lambdaRole = lambdaRole1, lambdaFn = lambdaFn0,
         logGroup = logGroup0, httpApi = httpApi1\<rparr>)"




section \<open>Requests, effects and the environment\<close>

text \<open>
  \<^verbatim>\<open>createReadStream(pathJoin(__dirname, '../lambda.zip'))\<close> makes a stream over the file
  at a path relative to the script's directory; the file is opened when the stream is
  read, not when it is made.
\<close>

datatype read_stream = ReadStream string string

record put_object_command =
  Bucket :: string
  Key :: string
  Body :: read_stream

datatype capability = CAPABILITY_IAM | CAPABILITY_NAMED_IAM | CAPABILITY_AUTO_EXPAND

record create_stack_command =
  StackName :: string
  TemplateBody :: string
  Capabilities :: "capability list"

text \<open>A failure: a thrown exception or a rejected promise, with what it carries.\<close>

datatype error = Failure string

datatype 'r log_arg = LogStr string | LogObj 'r

text \<open>
  What a run does to the world outside, in the order it does it: reading the clock and
  the random source, opening the archive, sending a request with the client of a region,
  handing the stack to the conversion, writing to standard output.
\<close>

datatype 'r event =
    DateNow
  | RandomBytes nat
  | CreateReadStream string string
  | S3Send string put_object_command
  | ToCloudFormation stack
  | ConsoleLog "'r log_arg list"
  | CloudFormationSend string create_stack_command

text \<open>
  Modelled from the spec: \<^verbatim>\<open>toCloudFormation\<close> is imported from \<^verbatim>\<open>./utils\<close>, a module
  of the repository that is not among the sources. The specification describes it as
  a pure conversion of the stack description into the template document, with no
  network I/O, that fails on a malformed or incomplete resource graph. A conversion is
  therefore a function of the stack description alone that returns a template or a
  failure; which function it is stays a parameter of a run.
\<close>

type_synonym 't conversion = "stack \<Rightarrow> error + 't"

text \<open>
  The environment of a run: everything the script reads or calls that is not its own code.
  \<^item> \<open>now\<close>: the clock, in milliseconds, as \<^verbatim>\<open>+new Date()\<close> reads it;
  \<^item> \<open>entropy\<close>: the bytes of the random source;
  \<^item> \<open>dirname\<close>: the directory of the script (\<^verbatim>\<open>__dirname\<close>);
  \<^item> \<open>fileExists\<close>: the local filesystem, whether there is a file at a path relative to
    a directory. The script never asks: \<^verbatim>\<open>createReadStream\<close> does not open the file, the
    client does when it reads the body of the request it was handed;
  \<^item> \<open>functionNameAttr\<close>: the framework's answer to \<^verbatim>\<open>lambdaFn.functionName\<close>;
  \<^item> \<open>s3\<close>: the outcome of \<^verbatim>\<open>s3Client.send\<close>, \<open>None\<close> when the storage service
    acknowledges the transfer, the failure otherwise (the script drops the response);
  \<^item> \<open>toCloudFormation\<close>: the conversion of a stack description into a template;
  \<^item> \<open>stringify\<close>, \<open>stringifyPretty\<close>: \<^verbatim>\<open>JSON.stringify(t)\<close> and
    \<^verbatim>\<open>JSON.stringify(t, null, 2)\<close>;
  \<^item> \<open>cloudformation\<close>: the outcome of the orchestration client's \<^verbatim>\<open>send\<close>, the
    service's response to the request or the failure.
\<close>

record ('t, 'r) env =
  now :: int
  entropy :: "nat \<Rightarrow> 8 word"
  dirname :: string
  fileExists :: "string \<Rightarrow> string \<Rightarrow> bool"
  functionNameAttr :: "lambda_function \<Rightarrow> string"
  s3 :: "put_object_command \<Rightarrow> error option"
  toCloudFormation :: "'t conversion"
  stringify :: "'t \<Rightarrow> string"
  stringifyPretty :: "'t \<Rightarrow> string"
  cloudformation :: "create_stack_command \<Rightarrow> error + 'r"

record generate_stack_options =
  optDeploymentName :: string
  optLambdaBucketName :: string

section \<open>Uploading the artifact and synthesizing the template\<close>

text \<open>
  The local constants of \<^verbatim>\<open>generateStack\<close> (lines 131 to 143), as functions of what they
  are computed from: the name of the function artifact, the upload request and the
  properties the stack is built from.
\<close>

definition artifactName :: "('t, 'r) env \<Rightarrow> generate_stack_options \<Rightarrow> string" where
  "artifactName e opts = optDeploymentName opts @ ''_'' @ generateUUID (entropy e)"

definition putObjectCommand :: "('t, 'r) env \<Rightarrow> generate_stack_options \<Rightarrow> put_object_command" where
  "putObjectCommand e opts =
     \<lparr>Bucket = optLambdaBucketName opts,
      Key = artifactName e opts @ ''.zip'',
      Body = ReadStream (dirname e) ''../lambda.zip''\<rparr>"

definition stackProps :: "('t, 'r) env \<Rightarrow> generate_stack_options \<Rightarrow> single_deployment_props" where
  "stackProps e opts =
     \<lparr>deploymentName = optDeploymentName opts,
      lambdaBucketName = optLambdaBucketName opts,
      functionName = artifactName e opts\<rparr>"

text \<open>
  \<^verbatim>\<open>generateStack\<close>: the token is drawn, the stream made and the upload sent and awaited.
  A rejected upload rejects the call there. Otherwise the stack is built and converted,
  and the conversion's result, template or failure, is the result of the call.
\<close>

definition generateStack :: "('t, 'r) env \<Rightarrow> generate_stack_options \<Rightarrow> 'r event list \<times> (error + 't)" where
  "generateStack e opts =
    (let uploaded = [RandomBytes 4,
                     CreateReadStream (dirname e) ''../lambda.zip'',
                     S3Send REGION (putObjectCommand e opts)]
     in case s3 e (putObjectCommand e opts) of
          Some err \<Rightarrow> (uploaded, Inl err)
        | None \<Rightarrow>
            (let stack0 = SingleDeploymentStack (functionNameAttr e) (stackProps e opts)
             in (uploaded @ [ToCloudFormation stack0], toCloudFormation e stack0)))"

section \<open>Create resources\<close>

text \<open>The local constants of \<^verbatim>\<open>main\<close> (lines 154 to 168).\<close>

definition mainDeploymentName :: "('t, 'r) env \<Rightarrow> string" where
  "mainDeploymentName e = ''tfn-'' @ showInt (now e)"

definition mainOptions :: "('t, 'r) env \<Rightarrow> generate_stack_options" where
  "mainOptions e = \<lparr>optDeploymentName = mainDeploymentName e, optLambdaBucketName = LAMBDA_BUCKET\<rparr>"

definition createStackCommand :: "('t, 'r) env \<Rightarrow> 't \<Rightarrow> create_stack_command" where
  "createStackCommand e template =
     \<lparr>StackName = mainDeploymentName e,
      TemplateBody = stringify e template,
      Capabilities = [CAPABILITY_IAM]\<rparr>"

text \<open>
  \<^verbatim>\<open>main\<close>: the clock is read, \<^verbatim>\<open>generateStack\<close> awaited, the template printed, the
  stack-creation request sent and awaited, the response printed. Nothing is caught: the
  first failure is the outcome of the run. The script calls \<^verbatim>\<open>main()\<close> once, at its end.
\<close>

definition main :: "('t, 'r) env \<Rightarrow> 'r event list \<times> (error + unit)" where
  "main e =
    (case generateStack e (mainOptions e) of
       (generated, Inl err) \<Rightarrow> (DateNow # generated, Inl err)
     | (generated, Inr template) \<Rightarrow>
         (let printed = DateNow # generated
                          @ [ConsoleLog [LogStr ''template: '', LogStr (stringifyPretty e template)],
                             CloudFormationSend REGION (createStackCommand e template)]
          in case cloudformation e (createStackCommand e template) of
               Inl err \<Rightarrow> (printed, Inl err)
             | Inr response \<Rightarrow> (printed @ [ConsoleLog [LogObj response]], Inr ())))"

section \<open>Reading a run\<close>

text \<open>The requests of a run, by service, and the stacks handed to the conversion.\<close>

fun s3Requests :: "'r event list \<Rightarrow> (string \<times> put_object_command) list" where
  "s3Requests [] = []"
| "s3Requests (S3Send region cmd # evs) = (region, cmd) # s3Requests evs"
| "s3Requests (ev # evs) = s3Requests evs"

fun cloudFormationRequests :: "'r event list \<Rightarrow> (string \<times> create_stack_command) list" where
  "cloudFormationRequests [] = []"
| "cloudFormationRequests (CloudFormationSend region cmd # evs) = (region, cmd) # cloudFormationRequests evs"
| "cloudFormationRequests (ev # evs) = cloudFormationRequests evs"

fun synthesizedStacks :: "'r event list \<Rightarrow> stack list" where
  "synthesizedStacks [] = []"
| "synthesizedStacks (ToCloudFormation st # evs) = st # synthesizedStacks evs"
| "synthesizedStacks (ev # evs) = synthesizedStacks evs"

text \<open>What a run does once its first stack-creation request is out.\<close>

fun afterSubmission :: "'r event list \<Rightarrow> 'r event list" where
  "afterSubmission [] = []"
| "afterSubmission (CloudFormationSend region cmd # evs) = evs"
| "afterSubmission (ev # evs) = afterSubmission evs"

text \<open>
  The components of the specification, and the component an effect belongs to; reading
  the clock and printing belong to none of the four.
\<close>

datatype component = Generator | Uploader | Synthesizer | Submitter

fun componentOf :: "'r event \<Rightarrow> component option" where
  "componentOf (RandomBytes n) = Some Generator"
| "componentOf (CreateReadStream dir file) = Some Uploader"
| "componentOf (S3Send region cmd) = Some Uploader"
| "componentOf (ToCloudFormation st) = Some Synthesizer"
| "componentOf (CloudFormationSend region cmd) = Some Submitter"
| "componentOf DateNow = None"
| "componentOf (ConsoleLog args) = None"

definition components :: "'r event list \<Rightarrow> component list" where
  "components evs = List.map_filter componentOf evs"

fun isNetworkCall :: "'r event \<Rightarrow> bool" where
  "isNetworkCall (S3Send region cmd) = True"
| "isNetworkCall (CloudFormationSend region cmd) = True"
| "isNetworkCall ev = False"

text \<open>
  The synthesis step of a run: what happens from the moment the stack is handed to the
  conversion until the submitter takes over.
\<close>

definition duringSynthesis :: "'r event list \<Rightarrow> 'r event list" where
  "duringSynthesis evs =
     takeWhile (\<lambda>ev. componentOf ev \<noteq> Some Submitter)
       (dropWhile (\<lambda>ev. componentOf ev \<noteq> Some Synthesizer) evs)"

section \<open>Sample environments\<close>

text \<open>
  The infrastructure framework answers an attribute of a resource whose name is only
  known at deployment with a token: a placeholder string that the conversion to a
  template later replaces by a reference to the resource.
\<close>

definition unresolvedToken :: "nat \<Rightarrow> string" where
  "unresolvedToken n = ''${Token[TOKEN.'' @ showNat n @ '']}''"

text \<open>
  A run in which every service accepts what it is sent, for a given clock reading and
  random source. Templates and responses are plain strings here.
\<close>

definition sampleRun :: "int \<Rightarrow> (nat \<Rightarrow> 8 word) \<Rightarrow> (string, string) env" where
  "sampleRun t rnd =
     \<lparr>now = t, entropy = rnd, dirname = ''/srv/deploy/src'',
      fileExists = (\<lambda>dir file. True),
      functionNameAttr = (\<lambda>fn. unresolvedToken 0),
      s3 = (\<lambda>cmd. None),
      toCloudFormation = (\<lambda>st. Inr ''{}''),
      stringify = (\<lambda>t. t),
      stringifyPretty = (\<lambda>t. t),
      cloudformation = (\<lambda>cmd. Inr (''arn:aws:cloudformation:stack/'' @ StackName cmd))\<rparr>"

text \<open>Three runs that fail: at the upload, at the conversion and at the submission.\<close>

definition rejectedUpload :: "(string, string) env" where
  "rejectedUpload = (sampleRun 1667466000000 (\<lambda>i. 0))\<lparr>s3 := (\<lambda>cmd. Some (Failure ''AccessDenied''))\<rparr>"

definition rejectedSynthesis :: "(string, string) env" where
  "rejectedSynthesis =
     (sampleRun 1667466000000 (\<lambda>i. 0))\<lparr>toCloudFormation := (\<lambda>st. Inl (Failure ''ValidationError''))\<rparr>"

definition rejectedSubmission :: "(string, string) env" where
  "rejectedSubmission =
     (sampleRun 1667466000000 (\<lambda>i. 0))\<lparr>cloudformation := (\<lambda>cmd. Inl (Failure ''AlreadyExistsException''))\<rparr>"


text \<open>The upload request and the stack description of a run of \<^verbatim>\<open>main\<close>.\<close>

abbreviation mainUpload :: "('t, 'r) env \<Rightarrow> put_object_command" where
  "mainUpload e \<equiv> putObjectCommand e (mainOptions e)"

abbreviation mainStack :: "('t, 'r) env \<Rightarrow> stack" where
  "mainStack e \<equiv> SingleDeploymentStack (functionNameAttr e) (stackProps e (mainOptions e))"

section \<open>Properties of the identifier generator\<close>

lemma hexDigit_code: "d < 16 \<Longrightarrow> (of_char (hexDigit d) :: nat) = (if d < 10 then 48 + d else 87 + d)"
  by (simp add: hexDigit_def)

lemma hexDigit_lower: "d < 16 \<Longrightarrow> isLowerHex (hexDigit d)"
  by (simp add: isLowerHex_def hexDigit_code Let_def)

lemma hexDigit_letter: "d < 16 \<Longrightarrow> isLetter (hexDigit d) = (10 \<le> d)"
  by (auto simp add: isLetter_def hexDigit_code Let_def)

lemma lowerHex_nameChar: "isLowerHex c \<Longrightarrow> isNameChar c"
  by (auto simp add: isLowerHex_def isNameChar_def isLetter_def isDigit_def Let_def)

lemma unat_byte_div: "unat (b :: 8 word) div 16 < 16"
proof -
  have "unat b < 2 ^ 8" using unsigned_less [of b] by simp
  then show ?thesis by simp
qed

lemma byteToHex_lower: "list_all isLowerHex (byteToHex b)"
  by (simp add: byteToHex_def hexDigit_lower unat_byte_div)

lemma toHex_length: "length (toHex bs) = 2 * length bs"
  by (induction bs) (simp_all add: toHex_def byteToHex_def)

lemma toHex_lower: "list_all isLowerHex (toHex bs)"
  by (induction bs) (simp_all add: toHex_def byteToHex_lower)

lemma randomBytes_four: "randomBytes 4 rnd = [rnd 0, rnd 1, rnd 2, rnd 3]"
proof -
  have "[0..<4] = [0, 1, 2, 3::nat]" by (simp add: upt_rec)
  then show ?thesis by (simp add: randomBytes_def)
qed

lemma generateUUID_hd:
  "generateUUID rnd = hexDigit (unat (rnd 0) div 16) # tl (generateUUID rnd)"
  by (simp add: generateUUID_def randomBytes_four toHex_def byteToHex_def)

lemma list_all_mono_nameChar: "list_all isLowerHex s \<Longrightarrow> list_all isNameChar s"
  by (induction s) (simp_all add: lowerHex_nameChar)

text \<open>
  C1, as amended. Whatever the random source yields, \<open>generateUUID\<close> returns eight
  lowercase hexadecimal digits. Every one of them is a character the naming grammar
  allows after the first position, and the identifier matches the grammar exactly when
  its first digit is a letter, that is, when the first random byte is at least \<open>0xa0\<close>.
\<close>

theorem generateUUID_shape:
  "length (generateUUID rnd) = 8
   \<and> list_all isLowerHex (generateUUID rnd)
   \<and> list_all isNameChar (generateUUID rnd)
   \<and> matchesNameGrammar (generateUUID rnd) = (160 \<le> unat (rnd 0))"
proof -
  have len: "length (generateUUID rnd) = 8"
    by (simp add: generateUUID_def toHex_length randomBytes_def)
  have low: "list_all isLowerHex (generateUUID rnd)"
    by (simp add: generateUUID_def toHex_lower)
  have nam: "list_all isNameChar (generateUUID rnd)"
    using low by (rule list_all_mono_nameChar)
  have tl_nam: "list_all isNameChar (tl (generateUUID rnd))"
    using nam by (cases "generateUUID rnd") simp_all
  have "matchesNameGrammar (generateUUID rnd)
          = isLetter (hexDigit (unat (rnd 0) div 16))"
    by (subst generateUUID_hd) (simp add: matchesNameGrammar_def tl_nam)
  also have "\<dots> = (10 \<le> unat (rnd 0) div 16)"
    by (rule hexDigit_letter) (rule unat_byte_div)
  also have "\<dots> = (160 \<le> unat (rnd 0))"
    by auto
  finally show ?thesis using len low nam by simp
qed

text \<open>
  C1, the counterexample. When the random source yields four zero bytes the identifier is
  \<^verbatim>\<open>00000000\<close>: it starts with a digit and so does not match the naming grammar.
\<close>

theorem generateUUID_grammar_counterexample:
  "generateUUID (\<lambda>i. 0) = ''00000000'' \<and> \<not> matchesNameGrammar (generateUUID (\<lambda>i. 0))"
  by code_simp

section \<open>Properties of the decimal rendering\<close>

lemma digitChar_code: "d < 10 \<Longrightarrow> (of_char (digitChar d) :: nat) = 48 + d"
  by (simp add: digitChar_def)

lemma digitChar_inj: "a < 10 \<Longrightarrow> b < 10 \<Longrightarrow> digitChar a = digitChar b \<Longrightarrow> a = b"
proof -
  assume a: "a < 10" and b: "b < 10" and eq: "digitChar a = digitChar b"
  from eq have "(of_char (digitChar a) :: nat) = of_char (digitChar b)" by simp
  with a b show "a = b" by (simp add: digitChar_code)
qed

lemma digitChar_not_minus: "d < 10 \<Longrightarrow> digitChar d \<noteq> CHR ''-''"
proof
  assume d: "d < 10" and eq: "digitChar d = CHR ''-''"
  from eq have "(of_char (digitChar d) :: nat) = of_char (CHR ''-'')" by simp
  with d show False by (simp add: digitChar_code)
qed

lemma showNat_nonempty: "showNat n \<noteq> []"
  by (induction n rule: showNat.induct) (subst showNat.simps, simp)

lemma showNat_small: "n < 10 \<Longrightarrow> showNat n = [digitChar n]"
  by (subst showNat.simps) simp

lemma showNat_large: "\<not> n < 10 \<Longrightarrow> showNat n = showNat (n div 10) @ [digitChar (n mod 10)]"
  by (subst showNat.simps) simp

lemma showNat_hd: "hd (showNat n) \<noteq> CHR ''-''"
proof (induction n rule: showNat.induct)
  case (1 n)
  show ?case
  proof (cases "n < 10")
    case True
    then show ?thesis by (simp add: showNat_small digitChar_not_minus)
  next
    case False
    with 1 show ?thesis by (simp add: showNat_large showNat_nonempty)
  qed
qed

lemma showNat_inj: "showNat m = showNat n \<Longrightarrow> m = n"
proof (induction m arbitrary: n rule: showNat.induct)
  case (1 m)
  show ?case
  proof (cases "m < 10")
    case m: True
    show ?thesis
    proof (cases "n < 10")
      case True
      with m "1.prems" show ?thesis by (simp add: showNat_small digitChar_inj)
    next
      case False
      with m "1.prems" show ?thesis
        using showNat_nonempty [of "n div 10"]
        by (simp add: showNat_small showNat_large)
    qed
  next
    case m: False
    show ?thesis
    proof (cases "n < 10")
      case True
      with m "1.prems" show ?thesis
        using showNat_nonempty [of "m div 10"]
        by (simp add: showNat_small showNat_large)
    next
      case False
      with m "1.prems" have "showNat (m div 10) = showNat (n div 10)"
        and d: "digitChar (m mod 10) = digitChar (n mod 10)"
        by (simp_all add: showNat_large)
      with m "1.IH" have q: "m div 10 = n div 10" by blast
      from d have r: "m mod 10 = n mod 10" by (intro digitChar_inj) simp_all
      from q r show ?thesis by (metis div_mult_mod_eq)
    qed
  qed
qed

lemma showInt_inj: "showInt i = showInt j \<Longrightarrow> i = j"
proof -
  assume eq: "showInt i = showInt j"
  have neg: "\<And>a b. showNat a \<noteq> CHR ''-'' # b"
  proof
    fix a b assume "showNat a = CHR ''-'' # b"
    then have "hd (showNat a) = CHR ''-''" by simp
    then show False by (simp add: showNat_hd)
  qed
  show "i = j"
  proof (cases "i < 0")
    case i: True
    show ?thesis
    proof (cases "j < 0")
      case True
      with i eq have "showNat (nat (- i)) = showNat (nat (- j))" by (simp add: showInt_def)
      then have "nat (- i) = nat (- j)" by (rule showNat_inj)
      with i True show ?thesis by simp
    next
      case False
      with i eq show ?thesis using neg [of "nat j" "showNat (nat (- i))"] by (simp add: showInt_def)
    qed
  next
    case i: False
    show ?thesis
    proof (cases "j < 0")
      case True
      with i eq show ?thesis using neg [of "nat i" "showNat (nat (- j))"] by (simp add: showInt_def)
    next
      case False
      with i eq have "showNat (nat i) = showNat (nat j)" by (simp add: showInt_def)
      then have "nat i = nat j" by (rule showNat_inj)
      with i False show ?thesis by simp
    qed
  qed
qed

lemma digitChar_values:
  "digitChar 0 = CHR ''0''" "digitChar (Suc 0) = CHR ''1''" "digitChar 2 = CHR ''2''"
  "digitChar 3 = CHR ''3''" "digitChar 4 = CHR ''4''" "digitChar 5 = CHR ''5''"
  "digitChar 6 = CHR ''6''" "digitChar 7 = CHR ''7''" "digitChar 8 = CHR ''8''"
  "digitChar 9 = CHR ''9''"
  by code_simp+

lemma hexDigit_values:
  "hexDigit 0 = CHR ''0''" "hexDigit (Suc 0) = CHR ''1''" "hexDigit 2 = CHR ''2''"
  "hexDigit 3 = CHR ''3''" "hexDigit 4 = CHR ''4''" "hexDigit 5 = CHR ''5''"
  "hexDigit 6 = CHR ''6''" "hexDigit 7 = CHR ''7''" "hexDigit 8 = CHR ''8''"
  "hexDigit 9 = CHR ''9''" "hexDigit 10 = CHR ''a''" "hexDigit 11 = CHR ''b''"
  "hexDigit 12 = CHR ''c''" "hexDigit 13 = CHR ''d''" "hexDigit 14 = CHR ''e''"
  "hexDigit 15 = CHR ''f''"
  by code_simp+

section \<open>Properties of the stack description\<close>








text \<open>
  C2, as amended. The name of the log group is \<^verbatim>\<open>/aws/lambda/\<close> followed by what the
  framework answers for the \<^verbatim>\<open>functionName\<close> attribute of the function construct, the one
  declared under the internal name \<^verbatim>\<open>helloWorld\<close>. The name does not depend on the
  deployment name passed to the synthesizer. It is the string
  \<^verbatim>\<open>/aws/lambda/helloWorld\<close> exactly when the framework's answer is the internal name
  itself.
\<close>

theorem logGroupName_follows_function:
  "logGroupName (logGroup (SingleDeploymentStack f p))
     = ''/aws/lambda/'' @ f (lambdaFn (SingleDeploymentStack f p))
   \<and> fnId (lambdaFn (SingleDeploymentStack f p)) = ''helloWorld''
   \<and> logGroupName (logGroup (SingleDeploymentStack f (p\<lparr>deploymentName := d\<rparr>)))
     = logGroupName (logGroup (SingleDeploymentStack f p))
   \<and> (logGroupName (logGroup (SingleDeploymentStack f p)) = ''/aws/lambda/helloWorld'')
     = (f (lambdaFn (SingleDeploymentStack f p)) = ''helloWorld'')"
  by (simp add: SingleDeploymentStack_def Let_def)

text \<open>
  C2, the counterexample. The script gives the function no name of its own, so the
  framework answers with a token for the name the function gets at deployment (the name
  that, as the comment at the internal name says, the orchestration service prefixes
  with the deployment name). The log group's name is then \<^verbatim>\<open>/aws/lambda/\<close> followed by
  the token, not by \<^verbatim>\<open>helloWorld\<close>.
\<close>

theorem logGroupName_counterexample:
  "logGroupName (logGroup (SingleDeploymentStack (\<lambda>fn. unresolvedToken 0)
      \<lparr>deploymentName = ''tfn-0'', lambdaBucketName = ''cdk-test-tfn-lambdas'',
       functionName = ''tfn-0_00000000''\<rparr>))
     = ''/aws/lambda/${Token[TOKEN.0]}''
   \<and> logGroupName (logGroup (SingleDeploymentStack (\<lambda>fn. unresolvedToken 0)
      \<lparr>deploymentName = ''tfn-0'', lambdaBucketName = ''cdk-test-tfn-lambdas'',
       functionName = ''tfn-0_00000000''\<rparr>))
     \<noteq> ''/aws/lambda/helloWorld''"
  by (simp add: SingleDeploymentStack_def Let_def unresolvedToken_def showNat.simps digitChar_values)

section \<open>The runs of the script, case by case\<close>

text \<open>
  A run ends in one of four ways: the upload is rejected, the conversion fails, the
  stack-creation request is rejected, or the request is acknowledged. The lemmas below
  give the effects and the outcome of the run in each case.
\<close>

lemma generateStack_rejected:
  "s3 e (putObjectCommand e opts) = Some err \<Longrightarrow>
   generateStack e opts =
     ([RandomBytes 4, CreateReadStream (dirname e) ''../lambda.zip'',
       S3Send REGION (putObjectCommand e opts)], Inl err)"
  by (simp add: generateStack_def)

lemma generateStack_uploaded:
  "s3 e (putObjectCommand e opts) = None \<Longrightarrow>
   generateStack e opts =
     ([RandomBytes 4, CreateReadStream (dirname e) ''../lambda.zip'',
       S3Send REGION (putObjectCommand e opts),
       ToCloudFormation (SingleDeploymentStack (functionNameAttr e) (stackProps e opts))],
      toCloudFormation e (SingleDeploymentStack (functionNameAttr e) (stackProps e opts)))"
  by (simp add: generateStack_def Let_def)

lemma main_upload_failed:
  "s3 e (mainUpload e) = Some err \<Longrightarrow>
   main e = ([DateNow, RandomBytes 4, CreateReadStream (dirname e) ''../lambda.zip'',
              S3Send REGION (mainUpload e)], Inl err)"
  by (simp add: main_def generateStack_rejected)

lemma main_synthesis_failed:
  "s3 e (mainUpload e) = None \<Longrightarrow> toCloudFormation e (mainStack e) = Inl err \<Longrightarrow>
   main e = ([DateNow, RandomBytes 4, CreateReadStream (dirname e) ''../lambda.zip'',
              S3Send REGION (mainUpload e), ToCloudFormation (mainStack e)], Inl err)"
  by (simp add: main_def generateStack_uploaded)

lemma main_submission_failed:
  "s3 e (mainUpload e) = None \<Longrightarrow> toCloudFormation e (mainStack e) = Inr t \<Longrightarrow>
   cloudformation e (createStackCommand e t) = Inl err \<Longrightarrow>
   main e = ([DateNow, RandomBytes 4, CreateReadStream (dirname e) ''../lambda.zip'',
              S3Send REGION (mainUpload e), ToCloudFormation (mainStack e),
              ConsoleLog [LogStr ''template: '', LogStr (stringifyPretty e t)],
              CloudFormationSend REGION (createStackCommand e t)], Inl err)"
  by (simp add: main_def generateStack_uploaded)

lemma main_succeeded:
  "s3 e (mainUpload e) = None \<Longrightarrow> toCloudFormation e (mainStack e) = Inr t \<Longrightarrow>
   cloudformation e (createStackCommand e t) = Inr response \<Longrightarrow>
   main e = ([DateNow, RandomBytes 4, CreateReadStream (dirname e) ''../lambda.zip'',
              S3Send REGION (mainUpload e), ToCloudFormation (mainStack e),
              ConsoleLog [LogStr ''template: '', LogStr (stringifyPretty e t)],
              CloudFormationSend REGION (createStackCommand e t),
              ConsoleLog [LogObj response]], Inr ())"
  by (simp add: main_def generateStack_uploaded)

lemma main_cases:
  obtains (upload) err where "s3 e (mainUpload e) = Some err"
  | (synthesis) err where "s3 e (mainUpload e) = None" "toCloudFormation e (mainStack e) = Inl err"
  | (submission) t err where "s3 e (mainUpload e) = None" "toCloudFormation e (mainStack e) = Inr t"
      "cloudformation e (createStackCommand e t) = Inl err"
  | (success) t response where "s3 e (mainUpload e) = None" "toCloudFormation e (mainStack e) = Inr t"
      "cloudformation e (createStackCommand e t) = Inr response"
proof (cases "s3 e (mainUpload e)")
  case (Some err)
  then show ?thesis by (rule upload)
next
  case None
  show ?thesis
  proof (cases "toCloudFormation e (mainStack e)")
    case (Inl err)
    with None show ?thesis by (rule synthesis)
  next
    case (Inr t)
    show ?thesis
    proof (cases "cloudformation e (createStackCommand e t)")
      case (Inl err)
      with None Inr show ?thesis by (rule submission)
    next
      case (Inr response)
      with None \<open>toCloudFormation e (mainStack e) = Inr t\<close> show ?thesis by (rule success)
    qed
  qed
qed

lemma main_s3Requests: "s3Requests (fst (main e)) = [(REGION, mainUpload e)]"
proof (cases e rule: main_cases)
  case (upload err)
  then show ?thesis by (simp add: main_upload_failed)
next
  case (synthesis err)
  then show ?thesis by (simp add: main_synthesis_failed)
next
  case (submission t err)
  then show ?thesis by (simp add: main_submission_failed)
next
  case (success t response)
  then show ?thesis by (simp add: main_succeeded)
qed

lemma generateUUID_length: "length (generateUUID rnd) = 8"
  by (simp add: generateUUID_def toHex_length randomBytes_def)

lemma mainUpload_key:
  "Key (mainUpload e) = (''tfn-'' @ showInt (now e) @ ''_'') @ (generateUUID (entropy e) @ ''.zip'')"
  by (simp add: putObjectCommand_def artifactName_def mainOptions_def mainDeploymentName_def)

lemma sampleRun_generateStack:
  "snd (generateStack (sampleRun t rnd) (mainOptions (sampleRun t rnd))) = Inr ''{}''"
  by (simp add: generateStack_def sampleRun_def Let_def)

lemma sampleRun_requests:
  "cloudFormationRequests (fst (main (sampleRun t rnd)))
     = [(REGION, createStackCommand (sampleRun t rnd) ''{}'')]"
  by (simp add: main_def generateStack_def sampleRun_def Let_def)

lemma sampleRun_stackName:
  "StackName (createStackCommand (sampleRun t rnd) x) = ''tfn-'' @ showInt t"
  by (simp add: createStackCommand_def mainDeploymentName_def sampleRun_def)

lemma sampleRun_cloudformation:
  "cloudformation (sampleRun t rnd) cmd = Inr (''arn:aws:cloudformation:stack/'' @ StackName cmd)"
  by (simp add: sampleRun_def)

lemma showInt_sample: "showInt 1667466000000 = ''1667466000000''"
  by (simp add: showInt_def showNat.simps digitChar_values)

lemma sample_tokens:
  "generateUUID (\<lambda>i. 0) = ''00000000''" "generateUUID (\<lambda>i. 255) = ''ffffffff''"
  by (simp_all add: generateUUID_def randomBytes_four toHex_def byteToHex_def hexDigit_values)

lemma rejected_facts:
  "s3 rejectedUpload (mainUpload rejectedUpload) = Some (Failure ''AccessDenied'')"
  "s3 rejectedSynthesis (mainUpload rejectedSynthesis) = None"
  "toCloudFormation rejectedSynthesis (mainStack rejectedSynthesis) = Inl (Failure ''ValidationError'')"
  "s3 rejectedSubmission (mainUpload rejectedSubmission) = None"
  "toCloudFormation rejectedSubmission (mainStack rejectedSubmission) = Inr ''{}''"
  "cloudformation rejectedSubmission (createStackCommand rejectedSubmission ''{}'')
     = Inl (Failure ''AlreadyExistsException'')"
  by (simp_all add: rejectedUpload_def rejectedSynthesis_def rejectedSubmission_def sampleRun_def)

section \<open>Properties of a run\<close>

text \<open>
  C10. The key of the upload request equals the code key of the function resource in
  the stack handed to the conversion: both are the deployment name, an underscore, the
  generated token and \<^verbatim>\<open>.zip\<close>. This holds for \<^verbatim>\<open>generateStack\<close> under any options
  and for a run of \<^verbatim>\<open>main\<close>, where the deployment name is \<^verbatim>\<open>tfn-\<close> followed by the
  clock reading. A run has exactly one upload request, and a stack description exactly
  when the upload was acknowledged.
\<close>

theorem upload_key_is_code_key:
  "map (Key \<circ> snd) (s3Requests (fst (generateStack e opts)))
     = [optDeploymentName opts @ ''_'' @ generateUUID (entropy e) @ ''.zip'']
   \<and> map (codeKey \<circ> fnCode \<circ> lambdaFn) (synthesizedStacks (fst (generateStack e opts)))
     = (case s3 e (putObjectCommand e opts) of
          None \<Rightarrow> [optDeploymentName opts @ ''_'' @ generateUUID (entropy e) @ ''.zip'']
        | Some err \<Rightarrow> [])
   \<and> map (Key \<circ> snd) (s3Requests (fst (main e)))
     = [''tfn-'' @ showInt (now e) @ ''_'' @ generateUUID (entropy e) @ ''.zip'']
   \<and> map (codeKey \<circ> fnCode \<circ> lambdaFn) (synthesizedStacks (fst (main e)))
     = (case s3 e (mainUpload e) of
          None \<Rightarrow> [''tfn-'' @ showInt (now e) @ ''_'' @ generateUUID (entropy e) @ ''.zip'']
        | Some err \<Rightarrow> [])"
proof -
  have key: "Key (putObjectCommand e opts)
      = optDeploymentName opts @ ''_'' @ generateUUID (entropy e) @ ''.zip''" for opts
    by (simp add: putObjectCommand_def artifactName_def)
  have code: "codeKey (fnCode (lambdaFn (SingleDeploymentStack (functionNameAttr e) (stackProps e opts))))
      = optDeploymentName opts @ ''_'' @ generateUUID (entropy e) @ ''.zip''" for opts
    by (simp add: SingleDeploymentStack_def Let_def stackProps_def artifactName_def)
  have name: "optDeploymentName (mainOptions e) = ''tfn-'' @ showInt (now e)"
    by (simp add: mainOptions_def mainDeploymentName_def)
  have gen: "map (Key \<circ> snd) (s3Requests (fst (generateStack e opts)))
       = [optDeploymentName opts @ ''_'' @ generateUUID (entropy e) @ ''.zip'']
     \<and> map (codeKey \<circ> fnCode \<circ> lambdaFn) (synthesizedStacks (fst (generateStack e opts)))
       = (case s3 e (putObjectCommand e opts) of
            None \<Rightarrow> [optDeploymentName opts @ ''_'' @ generateUUID (entropy e) @ ''.zip'']
          | Some err \<Rightarrow> [])" for opts
  proof (cases "s3 e (putObjectCommand e opts)")
    case None
    then show ?thesis by (simp add: generateStack_uploaded key code)
  next
    case (Some err)
    then show ?thesis by (simp add: generateStack_rejected key)
  qed
  have run: "map (Key \<circ> snd) (s3Requests (fst (main e)))
       = [''tfn-'' @ showInt (now e) @ ''_'' @ generateUUID (entropy e) @ ''.zip'']
     \<and> map (codeKey \<circ> fnCode \<circ> lambdaFn) (synthesizedStacks (fst (main e)))
       = (case s3 e (mainUpload e) of
            None \<Rightarrow> [''tfn-'' @ showInt (now e) @ ''_'' @ generateUUID (entropy e) @ ''.zip'']
          | Some err \<Rightarrow> [])"
  proof (cases e rule: main_cases)
    case (upload err)
    then show ?thesis by (simp add: main_upload_failed key name)
  next
    case (synthesis err)
    then show ?thesis by (simp add: main_synthesis_failed key code name)
  next
    case (submission t err)
    then show ?thesis by (simp add: main_submission_failed key code name)
  next
    case (success t response)
    then show ?thesis by (simp add: main_succeeded key code name)
  qed
  from gen [of opts] run show ?thesis by simp
qed

text \<open>
  C6. No run sends more than one stack-creation request. In a run in which
  \<^verbatim>\<open>generateStack\<close> returns a template, so that the submitter is reached, it sends
  exactly one, with the client of the compiled-in region. The
  request carries the deployment name as the stack name, the serialized template as the
  body and the capability \<^verbatim>\<open>CAPABILITY_IAM\<close>. After the request the run only prints the
  service's response when there is one; it sends nothing more and polls for nothing. The
  run succeeds when the service acknowledges the request and fails with the service's
  failure otherwise.
\<close>

theorem submitter_sends_one_request:
  "length (cloudFormationRequests (fst (main e))) \<le> 1
   \<and> (snd (generateStack e (mainOptions e)) = Inr t \<longrightarrow>
        cloudFormationRequests (fst (main e))
          = [(REGION, \<lparr>StackName = ''tfn-'' @ showInt (now e),
                       TemplateBody = stringify e t,
                       Capabilities = [CAPABILITY_IAM]\<rparr>)]
        \<and> afterSubmission (fst (main e))
          = (case cloudformation e (createStackCommand e t) of
               Inl err \<Rightarrow> []
             | Inr response \<Rightarrow> [ConsoleLog [LogObj response]])
        \<and> snd (main e)
          = (case cloudformation e (createStackCommand e t) of
               Inl err \<Rightarrow> Inl err
             | Inr response \<Rightarrow> Inr ()))"
proof (intro conjI impI)
  show "length (cloudFormationRequests (fst (main e))) \<le> 1"
  proof (cases e rule: main_cases)
    case (upload err)
    then show ?thesis by (simp add: main_upload_failed)
  next
    case (synthesis err)
    then show ?thesis by (simp add: main_synthesis_failed)
  next
    case (submission t err)
    then show ?thesis by (simp add: main_submission_failed)
  next
    case (success t response)
    then show ?thesis by (simp add: main_succeeded)
  qed
next
  assume template: "snd (generateStack e (mainOptions e)) = Inr t"
  have cmd: "createStackCommand e t
      = \<lparr>StackName = ''tfn-'' @ showInt (now e), TemplateBody = stringify e t,
         Capabilities = [CAPABILITY_IAM]\<rparr>"
    by (simp add: createStackCommand_def mainDeploymentName_def)
  have up: "s3 e (mainUpload e) = None"
    using template by (cases "s3 e (mainUpload e)") (simp_all add: generateStack_rejected)
  with template have syn: "toCloudFormation e (mainStack e) = Inr t"
    by (simp add: generateStack_uploaded)
  have run: "cloudFormationRequests (fst (main e)) = [(REGION, createStackCommand e t)]
      \<and> afterSubmission (fst (main e))
          = (case cloudformation e (createStackCommand e t) of
               Inl err \<Rightarrow> []
             | Inr response \<Rightarrow> [ConsoleLog [LogObj response]])
      \<and> snd (main e)
          = (case cloudformation e (createStackCommand e t) of
               Inl err \<Rightarrow> Inl err
             | Inr response \<Rightarrow> Inr ())"
  proof (cases "cloudformation e (createStackCommand e t)")
    case (Inl err)
    with up syn show ?thesis by (simp add: main_submission_failed)
  next
    case (Inr response)
    with up syn show ?thesis by (simp add: main_succeeded)
  qed
  from run show "cloudFormationRequests (fst (main e))
          = [(REGION, \<lparr>StackName = ''tfn-'' @ showInt (now e),
                       TemplateBody = stringify e t,
                       Capabilities = [CAPABILITY_IAM]\<rparr>)]"
    by (simp add: cmd)
  from run show "afterSubmission (fst (main e))
          = (case cloudformation e (createStackCommand e t) of
               Inl err \<Rightarrow> []
             | Inr response \<Rightarrow> [ConsoleLog [LogObj response]])"
    by simp
  from run show "snd (main e)
          = (case cloudformation e (createStackCommand e t) of
               Inl err \<Rightarrow> Inl err
             | Inr response \<Rightarrow> Inr ())"
    by simp
qed

text \<open>
  C6, witness: the sample run in which every service accepts what it is sent.
\<close>

theorem submitter_sends_one_request_witness:
  "snd (generateStack (sampleRun 1667466000000 (\<lambda>i. 0)) (mainOptions (sampleRun 1667466000000 (\<lambda>i. 0))))
     = Inr ''{}''
   \<and> cloudFormationRequests (fst (main (sampleRun 1667466000000 (\<lambda>i. 0))))
     = [(''eu-central-1'', \<lparr>StackName = ''tfn-1667466000000'', TemplateBody = ''{}'',
                            Capabilities = [CAPABILITY_IAM]\<rparr>)]
   \<and> afterSubmission (fst (main (sampleRun 1667466000000 (\<lambda>i. 0))))
     = [ConsoleLog [LogObj ''arn:aws:cloudformation:stack/tfn-1667466000000'']]
   \<and> snd (main (sampleRun 1667466000000 (\<lambda>i. 0))) = Inr ()"
proof -
  have h: "snd (generateStack (sampleRun 1667466000000 (\<lambda>i. 0))
      (mainOptions (sampleRun 1667466000000 (\<lambda>i. 0)))) = Inr ''{}''"
    by (rule sampleRun_generateStack)
  have c: "cloudformation (sampleRun 1667466000000 (\<lambda>i. 0))
      (createStackCommand (sampleRun 1667466000000 (\<lambda>i. 0)) ''{}'')
      = Inr ''arn:aws:cloudformation:stack/tfn-1667466000000''"
    by (simp add: sampleRun_cloudformation sampleRun_stackName showInt_sample)
  have s: "stringify (sampleRun 1667466000000 (\<lambda>i. 0)) ''{}'' = ''{}''"
    "now (sampleRun 1667466000000 (\<lambda>i. 0)) = 1667466000000"
    by (simp_all add: sampleRun_def)
  from submitter_sends_one_request [of "sampleRun 1667466000000 (\<lambda>i. 0)" "''{}''"] h
  show ?thesis
    by (simp add: c s showInt_sample REGION_def)
qed

text \<open>
  C8. The effects of a run are an initial segment of one fixed sequence: the clock, the
  generator, the uploader (stream, then request), the synthesizer, a print, the
  submitter, a print. Each component therefore runs at most once, in one block, in the
  order generator, uploader, synthesizer, submitter. The synthesizer runs exactly when
  the upload was acknowledged, the submitter exactly when \<^verbatim>\<open>generateStack\<close> returned a
  template. No network call happens during the synthesis step.
\<close>

theorem steps_run_in_order:
  "prefix (map componentOf (fst (main e)))
      [None, Some Generator, Some Uploader, Some Uploader, Some Synthesizer, None,
       Some Submitter, None]
   \<and> prefix (remdups_adj (components (fst (main e)))) [Generator, Uploader, Synthesizer, Submitter]
   \<and> (Synthesizer \<in> set (components (fst (main e)))) = (s3 e (mainUpload e) = None)
   \<and> (Submitter \<in> set (components (fst (main e))))
       = (case snd (generateStack e (mainOptions e)) of Inl err \<Rightarrow> False | Inr t \<Rightarrow> True)
   \<and> list_all (\<lambda>ev. \<not> isNetworkCall ev) (duringSynthesis (fst (main e)))"
proof (cases e rule: main_cases)
  case (upload err)
  then show ?thesis
    by (simp add: main_upload_failed generateStack_rejected components_def map_filter_def
        duringSynthesis_def)
next
  case (synthesis err)
  then show ?thesis
    by (simp add: main_synthesis_failed generateStack_uploaded components_def map_filter_def
        duringSynthesis_def)
next
  case (submission t err)
  then show ?thesis
    by (simp add: main_submission_failed generateStack_uploaded components_def map_filter_def
        duringSynthesis_def)
next
  case (success t response)
  then show ?thesis
    by (simp add: main_succeeded generateStack_uploaded components_def map_filter_def
        duringSynthesis_def)
qed

text \<open>
  C9. A failure of the upload, of the conversion or of the submission is the outcome of
  the whole run, and the failing call is the last effect of the run: nothing is retried
  and nothing is cleaned up afterwards. In every run there is exactly one request to
  object storage, the upload itself, at most one conversion and at most one
  stack-creation request.
\<close>

theorem failure_ends_the_run:
  "(s3 e (mainUpload e) = Some err \<longrightarrow>
      snd (main e) = Inl err \<and> last (fst (main e)) = S3Send REGION (mainUpload e))
   \<and> (s3 e (mainUpload e) = None \<and> toCloudFormation e (mainStack e) = Inl err \<longrightarrow>
      snd (main e) = Inl err \<and> last (fst (main e)) = ToCloudFormation (mainStack e))
   \<and> (s3 e (mainUpload e) = None \<and> toCloudFormation e (mainStack e) = Inr t
        \<and> cloudformation e (createStackCommand e t) = Inl err \<longrightarrow>
      snd (main e) = Inl err
      \<and> last (fst (main e)) = CloudFormationSend REGION (createStackCommand e t))
   \<and> s3Requests (fst (main e)) = [(REGION, mainUpload e)]
   \<and> length (synthesizedStacks (fst (main e))) \<le> 1
   \<and> length (cloudFormationRequests (fst (main e))) \<le> 1"
proof -
  have counts: "length (synthesizedStacks (fst (main e))) \<le> 1
      \<and> length (cloudFormationRequests (fst (main e))) \<le> 1"
  proof (cases e rule: main_cases)
    case (upload err)
    then show ?thesis by (simp add: main_upload_failed)
  next
    case (synthesis err)
    then show ?thesis by (simp add: main_synthesis_failed)
  next
    case (submission t err)
    then show ?thesis by (simp add: main_submission_failed)
  next
    case (success t response)
    then show ?thesis by (simp add: main_succeeded)
  qed
  show ?thesis
    using counts
    by (auto simp add: main_upload_failed main_synthesis_failed main_submission_failed
        main_s3Requests)
qed

text \<open>
  C9, witness: the three sample runs that fail at the upload, at the conversion and at
  the submission.
\<close>

theorem failure_ends_the_run_witness:
  "s3 rejectedUpload (mainUpload rejectedUpload) = Some (Failure ''AccessDenied'')
   \<and> snd (main rejectedUpload) = Inl (Failure ''AccessDenied'')
   \<and> last (fst (main rejectedUpload)) = S3Send REGION (mainUpload rejectedUpload)
   \<and> toCloudFormation rejectedSynthesis (mainStack rejectedSynthesis) = Inl (Failure ''ValidationError'')
   \<and> snd (main rejectedSynthesis) = Inl (Failure ''ValidationError'')
   \<and> last (fst (main rejectedSynthesis)) = ToCloudFormation (mainStack rejectedSynthesis)
   \<and> cloudformation rejectedSubmission (createStackCommand rejectedSubmission ''{}'')
       = Inl (Failure ''AlreadyExistsException'')
   \<and> snd (main rejectedSubmission) = Inl (Failure ''AlreadyExistsException'')
   \<and> last (fst (main rejectedSubmission))
       = CloudFormationSend REGION (createStackCommand rejectedSubmission ''{}'')
   \<and> s3Requests (fst (main rejectedSubmission)) = [(REGION, mainUpload rejectedSubmission)]"
  using failure_ends_the_run [of rejectedUpload "Failure ''AccessDenied''"]
    failure_ends_the_run [of rejectedSynthesis "Failure ''ValidationError''"]
    failure_ends_the_run [of rejectedSubmission "Failure ''AlreadyExistsException''" "''{}''"]
    rejected_facts
  by simp

lemma stackName_eq_iff:
  "(StackName (createStackCommand e1 t1) = StackName (createStackCommand e2 t2)) = (now e1 = now e2)"
  by (auto simp add: createStackCommand_def mainDeploymentName_def dest: showInt_inj)

lemma main_stackNames:
  "set (map (StackName \<circ> snd) (cloudFormationRequests (fst (main e)))) \<subseteq> {''tfn-'' @ showInt (now e)}"
proof (cases e rule: main_cases)
  case (upload err)
  then show ?thesis by (simp add: main_upload_failed)
next
  case (synthesis err)
  then show ?thesis by (simp add: main_synthesis_failed)
next
  case (submission t err)
  then show ?thesis
    by (simp add: main_submission_failed createStackCommand_def mainDeploymentName_def)
next
  case (success t response)
  then show ?thesis
    by (simp add: main_succeeded createStackCommand_def mainDeploymentName_def)
qed

text \<open>
  C4. Take two sequential runs, the second reading the clock after the first, whose
  generated tokens differ. The stack names of their stack-creation requests differ, so
  that no stack name one run asks for is asked for by the other, and the keys of their
  upload requests differ.
\<close>

theorem sequential_runs_do_not_collide:
  assumes "now e1 < now e2" and "generateUUID (entropy e1) \<noteq> generateUUID (entropy e2)"
  shows "StackName (createStackCommand e1 t1) \<noteq> StackName (createStackCommand e2 t2)
       \<and> set (map (StackName \<circ> snd) (cloudFormationRequests (fst (main e1))))
           \<inter> set (map (StackName \<circ> snd) (cloudFormationRequests (fst (main e2)))) = {}
       \<and> map (Key \<circ> snd) (s3Requests (fst (main e1)))
           \<noteq> map (Key \<circ> snd) (s3Requests (fst (main e2)))"
proof -
  have keys: "Key (mainUpload e1) \<noteq> Key (mainUpload e2)"
  proof
    assume "Key (mainUpload e1) = Key (mainUpload e2)"
    then have "(''tfn-'' @ showInt (now e1) @ ''_'') @ (generateUUID (entropy e1) @ ''.zip'')
        = (''tfn-'' @ showInt (now e2) @ ''_'') @ (generateUUID (entropy e2) @ ''.zip'')"
      by (simp only: mainUpload_key)
    moreover have "length (generateUUID (entropy e1) @ ''.zip'')
        = length (generateUUID (entropy e2) @ ''.zip'')"
      by (simp add: generateUUID_length)
    ultimately have "generateUUID (entropy e1) @ ''.zip'' = generateUUID (entropy e2) @ ''.zip''"
      by (metis append_eq_append_conv)
    with assms(2) show False by simp
  qed
  from assms(1) have clock: "now e1 \<noteq> now e2" by simp
  then have names: "StackName (createStackCommand e1 t1) \<noteq> StackName (createStackCommand e2 t2)"
    by (simp add: stackName_eq_iff)
  from clock have "showInt (now e1) \<noteq> showInt (now e2)"
    by (auto dest: showInt_inj)
  then have "{''tfn-'' @ showInt (now e1)} \<inter> {''tfn-'' @ showInt (now e2)} = {}"
    by simp
  with main_stackNames [of e1] main_stackNames [of e2]
  have apart: "set (map (StackName \<circ> snd) (cloudFormationRequests (fst (main e1))))
      \<inter> set (map (StackName \<circ> snd) (cloudFormationRequests (fst (main e2)))) = {}"
    by blast
  from keys names apart show ?thesis by (simp add: main_s3Requests)
qed

text \<open>
  C4, witness: two sample runs, the second 123 milliseconds after the first, with
  different tokens.
\<close>

theorem sequential_runs_do_not_collide_witness:
  "now (sampleRun 1667466000000 (\<lambda>i. 0)) < now (sampleRun 1667466000123 (\<lambda>i. 255))
   \<and> generateUUID (entropy (sampleRun 1667466000000 (\<lambda>i. 0)))
     \<noteq> generateUUID (entropy (sampleRun 1667466000123 (\<lambda>i. 255)))
   \<and> StackName (createStackCommand (sampleRun 1667466000000 (\<lambda>i. 0)) ''{}'')
     \<noteq> StackName (createStackCommand (sampleRun 1667466000123 (\<lambda>i. 255)) ''{}'')
   \<and> map (Key \<circ> snd) (s3Requests (fst (main (sampleRun 1667466000000 (\<lambda>i. 0)))))
     \<noteq> map (Key \<circ> snd) (s3Requests (fst (main (sampleRun 1667466000123 (\<lambda>i. 255)))))"
proof -
  have c: "now (sampleRun 1667466000000 (\<lambda>i. 0)) < now (sampleRun 1667466000123 (\<lambda>i. 255))"
    by (simp add: sampleRun_def)
  have h: "generateUUID (entropy (sampleRun 1667466000000 (\<lambda>i. 0)))
     \<noteq> generateUUID (entropy (sampleRun 1667466000123 (\<lambda>i. 255)))"
    by (simp add: sampleRun_def sample_tokens)
  from sequential_runs_do_not_collide [OF c h, of "''{}''" "''{}''"] c h show ?thesis by blast
qed





end
